theory Spec2Isabelle
  imports Main
begin

section \<open>JavaScript values used by the configuration code\<close>

text \<open>
  A field typed \<^verbatim>\<open>string | undefined\<close> is a \<^typ>\<open>string option\<close>, a field typed
  \<^verbatim>\<open>number | undefined\<close> is an \<^typ>\<open>int option\<close> (chain identifiers are integers);
  \<^term>\<open>None\<close> is \<^verbatim>\<open>undefined\<close>. A thrown \<^verbatim>\<open>new Error(msg)\<close> is the value
  \<open>Inl (Error msg)\<close> of a sum type.
\<close>

datatype js_error = Error string

text \<open>Truthiness: \<^verbatim>\<open>undefined\<close>, the empty string and \<^verbatim>\<open>0\<close> are falsy.\<close>

fun truthy_str :: "string option \<Rightarrow> bool" where
  "truthy_str None = False"
| "truthy_str (Some s) = (s \<noteq> [])"

fun truthy_num :: "int option \<Rightarrow> bool" where
  "truthy_num None = False"
| "truthy_num (Some n) = (n \<noteq> 0)"

text \<open>\<^verbatim>\<open>a || d\<close> with a default \<open>d\<close> that is a literal: \<open>a\<close> when it is truthy, else \<open>d\<close>.\<close>

fun or_str :: "string option \<Rightarrow> string \<Rightarrow> string" where
  "or_str None d = d"
| "or_str (Some s) d = (if s \<noteq> [] then s else d)"

fun or_num :: "int option \<Rightarrow> int \<Rightarrow> int" where
  "or_num None d = d"
| "or_num (Some n) d = (if n \<noteq> 0 then n else d)"


section \<open>The store: \<^verbatim>\<open>configSlice\<close>\<close>

text \<open>
  \<^verbatim>\<open>interface ConfigState extends Partial<RuntimeConfig> { loaded: boolean; error?: string }\<close>.
  The first record is \<^verbatim>\<open>Partial<RuntimeConfig>\<close>; it is also the type of the payload
  of \<^verbatim>\<open>loadConfig.fulfilled\<close>, which is the result of \<^verbatim>\<open>res.json()\<close> cast to
  \<^verbatim>\<open>RuntimeConfig\<close> without any check, so each of its fields may be missing.
\<close>

record PartialRuntimeConfig =
  cronosApiBase :: "string option"
  cronosFullNode :: "string option"
  cronosRpc :: "string option"
  cronosChainId :: "int option"
  cronosTestNetChainId :: "int option"
  mosaicApiBaseUrl :: "string option"
  cronosLabsUrl :: "string option"
  cronosExplorerUrl :: "string option"
  cronosPositionBrokerUrl :: "string option"

record ConfigState = PartialRuntimeConfig +
  loaded :: bool
  error :: "string option"

definition initialState :: ConfigState where
  "initialState =
     \<lparr> cronosApiBase = None, cronosFullNode = None, cronosRpc = None,
       cronosChainId = None, cronosTestNetChainId = None, mosaicApiBaseUrl = None,
       cronosLabsUrl = None, cronosExplorerUrl = None, cronosPositionBrokerUrl = None,
       loaded = False, error = None \<rparr>"

text \<open>
  The actions of the thunk \<^verbatim>\<open>loadConfig\<close>. \<open>Rejected m\<close> carries
  \<^verbatim>\<open>action.error.message\<close>, which may be undefined. \<open>Pending\<close> has no case in
  \<^verbatim>\<open>extraReducers\<close>, so the slice's reducer returns the state as it is.
\<close>

datatype action =
    Pending
  | Fulfilled PartialRuntimeConfig
  | Rejected "string option"

definition fulfilled_case :: "ConfigState \<Rightarrow> PartialRuntimeConfig \<Rightarrow> ConfigState" where
  "fulfilled_case state payload =
     state \<lparr> loaded := True,
             cronosApiBase := cronosApiBase payload,
             cronosFullNode := cronosFullNode payload,
             cronosRpc := cronosRpc payload,
             cronosChainId := cronosChainId payload,
             cronosTestNetChainId := cronosTestNetChainId payload,
             mosaicApiBaseUrl := mosaicApiBaseUrl payload,
             cronosLabsUrl := cronosLabsUrl payload,
             cronosExplorerUrl := cronosExplorerUrl payload,
             cronosPositionBrokerUrl := cronosPositionBrokerUrl payload \<rparr>"

definition rejected_case :: "ConfigState \<Rightarrow> string option \<Rightarrow> ConfigState" where
  "rejected_case state msg =
     state \<lparr> loaded := True, error := Some (or_str msg ''Config load failed'') \<rparr>"

fun configReducer :: "ConfigState \<Rightarrow> action \<Rightarrow> ConfigState" where
  "configReducer state Pending = state"
| "configReducer state (Fulfilled payload) = fulfilled_case state payload"
| "configReducer state (Rejected msg) = rejected_case state msg"

text \<open>A sequence of dispatched actions, applied from left to right.\<close>

fun dispatch_all :: "ConfigState \<Rightarrow> action list \<Rightarrow> ConfigState" where
  "dispatch_all state [] = state"
| "dispatch_all state (a # as) = dispatch_all (configReducer state a) as"


text \<open>
  The thunk \<^verbatim>\<open>loadConfig\<close>: \<^verbatim>\<open>fetch\<close> either throws (a transport failure, whose
  message may be undefined) or gives a response with its \<^verbatim>\<open>ok\<close> flag and what
  \<^verbatim>\<open>res.json()\<close> does with the body (throw, or the parsed object). The thunk
  dispatches \<open>Pending\<close> and then the completing action computed here; an exception of
  the payload creator becomes \<open>Rejected\<close> with the exception's message.
\<close>

datatype json_result =
    JsonThrows "string option"
  | JsonValue PartialRuntimeConfig

datatype fetch_result =
    FetchThrows "string option"
  | Response bool json_result

fun loadConfig :: "fetch_result \<Rightarrow> action" where
  "loadConfig (FetchThrows m) = Rejected m"
| "loadConfig (Response ok body) =
     (if \<not> ok then Rejected (Some ''Failed to load /config.json'')
      else (case body of
              JsonThrows m \<Rightarrow> Rejected m
            | JsonValue payload \<Rightarrow> Fulfilled payload))"

definition dispatch_loadConfig :: "ConfigState \<Rightarrow> fetch_result \<Rightarrow> ConfigState" where
  "dispatch_loadConfig state r = dispatch_all state [Pending, loadConfig r]"


section \<open>The accessors of \<^verbatim>\<open>globals.ts\<close>\<close>

text \<open>
  Each accessor reads \<^verbatim>\<open>store.getState().config\<close>; the model passes that state as
  the argument \<open>config\<close>. The plain accessors contain no \<^verbatim>\<open>throw\<close>, so they have no
  error result.
\<close>

definition getConfig :: "ConfigState \<Rightarrow> ConfigState" where
  "getConfig config = config"

definition getCronosApiBase :: "ConfigState \<Rightarrow> string option" where
  "getCronosApiBase config = cronosApiBase config"

definition getCronosRpc :: "ConfigState \<Rightarrow> string option" where
  "getCronosRpc config = cronosRpc config"

definition getCronosChainId :: "ConfigState \<Rightarrow> int option" where
  "getCronosChainId config = cronosChainId config"

definition getMosaicApiBase :: "ConfigState \<Rightarrow> string option" where
  "getMosaicApiBase config = mosaicApiBaseUrl config"

definition getCronosLabsUrl :: "ConfigState \<Rightarrow> string option" where
  "getCronosLabsUrl config = cronosLabsUrl config"

definition getCronosExplorerUrl :: "ConfigState \<Rightarrow> string option" where
  "getCronosExplorerUrl config = cronosExplorerUrl config"

definition getCronosPositionBrokerUrl :: "ConfigState \<Rightarrow> string option" where
  "getCronosPositionBrokerUrl config = cronosPositionBrokerUrl config"

definition isConfigLoaded :: "ConfigState \<Rightarrow> bool" where
  "isConfigLoaded config = loaded config"

text \<open>
  The requiring accessors. After the guard \<^verbatim>\<open>if (!config.f) throw\<close> (or
  \<^verbatim>\<open>config.f == null\<close>) the field is defined, so \<open>the\<close> is applied to \<open>Some\<close> only.
\<close>

definition requireCronosApiBase :: "ConfigState \<Rightarrow> js_error + string" where
  "requireCronosApiBase config =
     (if \<not> loaded config then
        Inl (Error ''Config not loaded yet. Ensure config is loaded before calling this function.'')
      else if \<not> truthy_str (cronosApiBase config) then
        Inl (Error ''cronosApiBase is not configured'')
      else Inr (the (cronosApiBase config)))"

definition requireCronosRpc :: "ConfigState \<Rightarrow> js_error + string" where
  "requireCronosRpc config =
     (if \<not> loaded config then Inl (Error ''Config not loaded yet'')
      else if \<not> truthy_str (cronosRpc config) then
        Inl (Error ''cronosRpc is not configured'')
      else Inr (the (cronosRpc config)))"

definition requireCronosChainId :: "ConfigState \<Rightarrow> js_error + int" where
  "requireCronosChainId config =
     (if \<not> loaded config then Inl (Error ''Config not loaded yet'')
      else if cronosChainId config = None then
        Inl (Error ''cronosChainId is not configured'')
      else Inr (the (cronosChainId config)))"

text \<open>
  The source function \<^verbatim>\<open>cronosTestNetChainId()\<close>; its name is taken by the field
  of the state, hence the suffix.
\<close>

definition cronosTestNetChainId_fn :: "ConfigState \<Rightarrow> js_error + int" where
  "cronosTestNetChainId_fn config =
     (if \<not> loaded config then Inl (Error ''Config not loaded yet'')
      else if cronosTestNetChainId config = None then
        Inl (Error ''cronosChainId is not configured'')
      else Inr (the (cronosTestNetChainId config)))"

definition requireConfig :: "ConfigState \<Rightarrow> js_error + ConfigState" where
  "requireConfig config =
     (if \<not> loaded config then Inl (Error ''Config not loaded yet'')
      else if \<not> truthy_str (cronosApiBase config) \<or>
              \<not> truthy_str (cronosRpc config) \<or>
              \<not> truthy_num (cronosChainId config) \<or>
              \<not> truthy_num (cronosTestNetChainId config) \<or>
              \<not> truthy_str (mosaicApiBaseUrl config) \<or>
              \<not> truthy_str (cronosLabsUrl config) \<or>
              \<not> truthy_str (cronosExplorerUrl config) then
        Inl (Error ''Config is incomplete'')
      else Inr config)"


section \<open>The hook \<^verbatim>\<open>useCronosConfig\<close>\<close>

record CronosConfig_hook =
  cronosApiBase_hook :: string
  cronosFullNode_hook :: string
  cronosRpc_hook :: string
  cronosChainId_hook :: int
  cronosTestNetChainId_hook :: int
  mosaicApiBaseUrl_hook :: string
  cronosLabsUrl_hook :: string
  cronosExplorerUrl_hook :: string
  cronosPositionBrokerUrl_hook :: string
  loaded_hook :: bool
  error_hook :: "string option"

definition useCronosConfig :: "ConfigState \<Rightarrow> CronosConfig_hook" where
  "useCronosConfig config =
     \<lparr> cronosApiBase_hook = or_str (cronosApiBase config) [],
       cronosFullNode_hook = or_str (cronosFullNode config) [],
       cronosRpc_hook = or_str (cronosRpc config) [],
       cronosChainId_hook = or_num (cronosChainId config) 25,
       cronosTestNetChainId_hook = or_num (cronosTestNetChainId config) 250,
       mosaicApiBaseUrl_hook = or_str (mosaicApiBaseUrl config) [],
       cronosLabsUrl_hook = or_str (cronosLabsUrl config) [],
       cronosExplorerUrl_hook = or_str (cronosExplorerUrl config) [],
       cronosPositionBrokerUrl_hook = or_str (cronosPositionBrokerUrl config) [],
       loaded_hook = loaded config,
       error_hook = error config \<rparr>"


section \<open>The component tree: \<^verbatim>\<open>ConfigGate\<close>, \<^verbatim>\<open>PrivyProviderWithConfig\<close>, \<^verbatim>\<open>Providers\<close>\<close>

text \<open>
  A render is a function from the store's state (and the props) to the element tree it
  returns. \<open>'c\<close> is the type of the \<^verbatim>\<open>children\<close> prop. The props of the two
  collaborators are records of what the source passes to them.
\<close>

record SupportedChain =
  chain_id :: int
  chain_name :: string
  network :: string
  currency_name :: string
  currency_symbol :: string
  decimals :: int
  rpc_http :: "string list"
  explorer_name :: string
  explorer_url :: string

record PrivyProps =
  appId :: string
  clientId :: "string option"
  loginMethods :: "string list"
  theme :: string
  accentColor :: string
  logo :: string
  createOnLogin :: string
  supportedChains :: "SupportedChain list"

record CopilotProps =
  runtimeUrl :: string
  showDevConsole :: bool
  agent :: string
  publicApiKey :: "string option"

datatype 'c element =
    Null
  | Div string
  | Fragment 'c
  | PrivyProvider PrivyProps "'c element"
  | CopilotKit CopilotProps "'c element"
  | ReduxProvider "'c element"

text \<open>
  \<^verbatim>\<open>ConfigGate\<close> also registers the effect \<^verbatim>\<open>dispatch(loadConfig())\<close>, which runs after
  the first render of the gate; what it returns depends on the state only.
\<close>

definition ConfigGate :: "ConfigState \<Rightarrow> 'c \<Rightarrow> 'c element" where
  "ConfigGate state children =
     (if \<not> loaded state then Null
      else if truthy_str (error state) then
        Div (''Failed to load config: '' @ the (error state))
      else Fragment children)"

definition PrivyProviderWithConfig ::
    "ConfigState \<Rightarrow> 'c \<Rightarrow> string \<Rightarrow> string option \<Rightarrow> string option \<Rightarrow> 'c element" where
  "PrivyProviderWithConfig state children app_id client_id copilotApiKey =
     (let config = useCronosConfig state in
      PrivyProvider
        \<lparr> appId = app_id,
          clientId = client_id,
          loginMethods = [''email'', ''wallet'', ''sms''],
          theme = ''light'',
          accentColor = ''#9333ea'',
          logo = ''https://cronos.org/favicon.ico'',
          createOnLogin = ''users-without-wallets'',
          supportedChains =
            [\<lparr> chain_id = cronosChainId_hook config,
               chain_name = ''Cronos'',
               network = ''cronos'',
               currency_name = ''CRO'',
               currency_symbol = ''CRO'',
               decimals = 18,
               rpc_http = [cronosLabsUrl_hook config],
               explorer_name = ''Cronos Explorer'',
               explorer_url = cronosExplorerUrl_hook config \<rparr>] \<rparr>
        (CopilotKit
           \<lparr> runtimeUrl = ''/api/copilotkit'',
             showDevConsole = False,
             agent = ''a2a_chat'',
             publicApiKey = copilotApiKey \<rparr>
           (ConfigGate state children)))"

record Env =
  NEXT_PUBLIC_PRIVY_APP_ID :: "string option"
  NEXT_PUBLIC_PRIVY_CLIENT_ID :: "string option"
  NEXT_PUBLIC_COPILOTKIT_API_KEY :: "string option"

definition Providers :: "Env \<Rightarrow> ConfigState \<Rightarrow> 'c \<Rightarrow> js_error + 'c element" where
  "Providers env state children =
     (if \<not> truthy_str (NEXT_PUBLIC_PRIVY_APP_ID env) then
        Inl (Error ''NEXT_PUBLIC_PRIVY_APP_ID is not set. Please add it to your .env.local file.'')
      else
        Inr (ReduxProvider
               (PrivyProviderWithConfig state children
                  (the (NEXT_PUBLIC_PRIVY_APP_ID env))
                  (NEXT_PUBLIC_PRIVY_CLIENT_ID env)
                  (NEXT_PUBLIC_COPILOTKIT_API_KEY env))))"

text \<open>What a rendered tree contains: a collaborator, and the gated children.\<close>

fun mounts_collaborator :: "'c element \<Rightarrow> bool" where
  "mounts_collaborator Null = False"
| "mounts_collaborator (Div m) = False"
| "mounts_collaborator (Fragment c) = False"
| "mounts_collaborator (PrivyProvider p e) = True"
| "mounts_collaborator (CopilotKit p e) = True"
| "mounts_collaborator (ReduxProvider e) = mounts_collaborator e"

fun renders_children :: "'c element \<Rightarrow> bool" where
  "renders_children Null = False"
| "renders_children (Div m) = False"
| "renders_children (Fragment c) = True"
| "renders_children (PrivyProvider p e) = renders_children e"
| "renders_children (CopilotKit p e) = renders_children e"
| "renders_children (ReduxProvider e) = renders_children e"

text \<open>The chains given to the authentication provider, wherever it is in the tree.\<close>

fun privy_chains :: "'c element \<Rightarrow> SupportedChain list" where
  "privy_chains Null = []"
| "privy_chains (Div m) = []"
| "privy_chains (Fragment c) = []"
| "privy_chains (PrivyProvider p e) = supportedChains p @ privy_chains e"
| "privy_chains (CopilotKit p e) = privy_chains e"
| "privy_chains (ReduxProvider e) = privy_chains e"


section \<open>Predicates on states and payloads\<close>

definition all_present :: "'a PartialRuntimeConfig_scheme \<Rightarrow> bool" where
  "all_present c \<longleftrightarrow>
     cronosApiBase c \<noteq> None \<and> cronosFullNode c \<noteq> None \<and> cronosRpc c \<noteq> None \<and>
     cronosChainId c \<noteq> None \<and> cronosTestNetChainId c \<noteq> None \<and>
     mosaicApiBaseUrl c \<noteq> None \<and> cronosLabsUrl c \<noteq> None \<and>
     cronosExplorerUrl c \<noteq> None \<and> cronosPositionBrokerUrl c \<noteq> None"

definition all_absent :: "'a PartialRuntimeConfig_scheme \<Rightarrow> bool" where
  "all_absent c \<longleftrightarrow>
     cronosApiBase c = None \<and> cronosFullNode c = None \<and> cronosRpc c = None \<and>
     cronosChainId c = None \<and> cronosTestNetChainId c = None \<and>
     mosaicApiBaseUrl c = None \<and> cronosLabsUrl c = None \<and>
     cronosExplorerUrl c = None \<and> cronosPositionBrokerUrl c = None"

text \<open>The nine configuration fields of a state, without \<open>loaded\<close> and \<open>error\<close>.\<close>

definition fields_of :: "ConfigState \<Rightarrow> PartialRuntimeConfig" where
  "fields_of state =
     \<lparr> cronosApiBase = cronosApiBase state, cronosFullNode = cronosFullNode state,
       cronosRpc = cronosRpc state, cronosChainId = cronosChainId state,
       cronosTestNetChainId = cronosTestNetChainId state,
       mosaicApiBaseUrl = mosaicApiBaseUrl state, cronosLabsUrl = cronosLabsUrl state,
       cronosExplorerUrl = cronosExplorerUrl state,
       cronosPositionBrokerUrl = cronosPositionBrokerUrl state \<rparr>"

text \<open>The invariant of the data model, as the specification words it.\<close>

definition state_invariant :: "ConfigState \<Rightarrow> bool" where
  "state_invariant s \<longleftrightarrow>
     (loaded s = False \<and> error s = None) \<or>
     (loaded s = True \<and> ((all_present s \<and> error s = None) \<or> error s \<noteq> None))"

text \<open>Before the first completing action no field has been written.\<close>

definition untouched :: "ConfigState \<Rightarrow> bool" where
  "untouched s \<longleftrightarrow> (\<not> loaded s \<longrightarrow> all_absent s \<and> error s = None)"

text \<open>The actions that complete a load.\<close>

fun completing :: "action \<Rightarrow> bool" where
  "completing Pending = False"
| "completing (Fulfilled payload) = True"
| "completing (Rejected m) = True"

text \<open>An action whose payload, if it has one, contains all nine fields.\<close>

fun complete_action :: "action \<Rightarrow> bool" where
  "complete_action (Fulfilled payload) = all_present payload"
| "complete_action Pending = True"
| "complete_action (Rejected m) = True"


section \<open>Concrete configurations\<close>

text \<open>The document of the end-to-end scenario, and copies of it that lack one field.\<close>

definition example_payload :: PartialRuntimeConfig where
  "example_payload =
     \<lparr> cronosApiBase = Some ''https://api.example'',
       cronosFullNode = Some ''https://fullnode.example'',
       cronosRpc = Some ''https://rpc.example'',
       cronosChainId = Some 25,
       cronosTestNetChainId = Some 338,
       mosaicApiBaseUrl = Some ''https://mosaic.example'',
       cronosLabsUrl = Some ''https://labs.example'',
       cronosExplorerUrl = Some ''https://explorer.example'',
       cronosPositionBrokerUrl = Some ''https://broker.example'' \<rparr>"

definition payload_without_rpc :: PartialRuntimeConfig where
  "payload_without_rpc = example_payload \<lparr> cronosRpc := None \<rparr>"

definition payload_without_broker :: PartialRuntimeConfig where
  "payload_without_broker = example_payload \<lparr> cronosPositionBrokerUrl := None \<rparr>"

definition payload_without_testnet :: PartialRuntimeConfig where
  "payload_without_testnet = example_payload \<lparr> cronosTestNetChainId := None \<rparr>"


text \<open>An environment in which the application identifier is set.\<close>

definition example_env :: Env where
  "example_env =
     \<lparr> NEXT_PUBLIC_PRIVY_APP_ID = Some ''app-id'',
       NEXT_PUBLIC_PRIVY_CLIENT_ID = None,
       NEXT_PUBLIC_COPILOTKIT_API_KEY = None \<rparr>"


section \<open>Properties of the store\<close>

subsection \<open>Single steps\<close>

lemma loaded_fulfilled_case: "loaded (fulfilled_case state payload)"
  by (simp add: fulfilled_case_def)

lemma loaded_rejected_case: "loaded (rejected_case state msg)"
  by (simp add: rejected_case_def)

lemma error_fulfilled_case: "error (fulfilled_case state payload) = error state"
  by (simp add: fulfilled_case_def)

lemma error_rejected_case:
  "error (rejected_case state msg) = Some (or_str msg ''Config load failed'')"
  by (simp add: rejected_case_def)

lemma fields_of_fulfilled_case: "fields_of (fulfilled_case state payload) = payload"
  by (simp add: fields_of_def fulfilled_case_def)

lemma fields_of_rejected_case: "fields_of (rejected_case state msg) = fields_of state"
  by (simp add: fields_of_def rejected_case_def)

lemma all_present_fields_of: "all_present (fields_of state) = all_present state"
  by (simp add: all_present_def fields_of_def)

lemma all_present_fulfilled_case:
  "all_present (fulfilled_case state payload) = all_present payload"
  using all_present_fields_of [of "fulfilled_case state payload"]
  by (simp add: fields_of_fulfilled_case)

lemma or_str_nonempty: "d \<noteq> [] \<Longrightarrow> or_str m d \<noteq> []"
  by (cases m) simp_all

subsection \<open>Sequences of steps\<close>

lemma loaded_configReducer: "loaded state \<Longrightarrow> loaded (configReducer state a)"
  by (cases a) (simp_all add: loaded_fulfilled_case loaded_rejected_case)

lemma loaded_dispatch_all: "loaded state \<Longrightarrow> loaded (dispatch_all state as)"
  by (induction as arbitrary: state) (simp_all add: loaded_configReducer)

lemma dispatch_all_append:
  "dispatch_all state (xs @ ys) = dispatch_all (dispatch_all state xs) ys"
  by (induction xs arbitrary: state) simp_all

lemma not_loaded_dispatch_all_pending:
  "\<not> loaded s \<Longrightarrow> \<not> list_ex completing as \<Longrightarrow> \<not> loaded (dispatch_all s as)"
proof (induction as arbitrary: s)
  case Nil
  then show ?case by simp
next
  case (Cons a as)
  then show ?case by (cases a) simp_all
qed

lemma untouched_configReducer: "untouched s \<Longrightarrow> untouched (configReducer s a)"
  by (cases a) (simp_all add: untouched_def loaded_fulfilled_case loaded_rejected_case)

lemma untouched_dispatch_all: "untouched s \<Longrightarrow> untouched (dispatch_all s as)"
  by (induction as arbitrary: s) (simp_all add: untouched_configReducer)

lemma untouched_initialState: "untouched initialState"
  by (simp add: untouched_def initialState_def all_absent_def)

lemma unloaded_reachable_absent:
  "\<not> loaded (dispatch_all initialState as) \<Longrightarrow>
   all_absent (dispatch_all initialState as) \<and> error (dispatch_all initialState as) = None"
  using untouched_dispatch_all [OF untouched_initialState, of as]
  by (simp add: untouched_def)

lemma state_invariant_configReducer:
  "state_invariant s \<Longrightarrow> complete_action a \<Longrightarrow> state_invariant (configReducer s a)"
  by (cases a)
     (auto simp add: state_invariant_def loaded_fulfilled_case loaded_rejected_case
        error_fulfilled_case error_rejected_case all_present_fulfilled_case)

lemma state_invariant_dispatch_all:
  "state_invariant s \<Longrightarrow> list_all complete_action as \<Longrightarrow>
   state_invariant (dispatch_all s as)"
  by (induction as arbitrary: s) (simp_all add: state_invariant_configReducer)

lemma state_invariant_initialState: "state_invariant initialState"
  by (simp add: state_invariant_def initialState_def)

subsection \<open>The concrete configurations\<close>

lemma all_present_example_payload: "all_present example_payload"
  by (simp add: all_present_def example_payload_def)

subsection \<open>Claims about the reducer and the loader\<close>

text \<open>
  Claim C9. The flag \<open>loaded\<close> is monotone: a \<^verbatim>\<open>loadConfig.fulfilled\<close> or
  \<^verbatim>\<open>loadConfig.rejected\<close> step taken in any state gives a state with \<open>loaded\<close> true,
  and once a sequence of actions dispatched from \<open>initialState\<close> has made \<open>loaded\<close>
  true, it is true after every longer sequence: no step sets it back to false.
\<close>

theorem loaded_monotone:
  "loaded (configReducer state (Fulfilled payload)) \<and>
   loaded (configReducer state (Rejected msg)) \<and>
   (loaded (dispatch_all initialState pre) \<longrightarrow>
      loaded (dispatch_all initialState (pre @ post)))"
  by (simp add: loaded_fulfilled_case loaded_rejected_case dispatch_all_append
        loaded_dispatch_all)

theorem loaded_monotone_witness:
  "loaded (dispatch_all initialState [Pending, Fulfilled example_payload]) \<and>
   loaded (dispatch_all initialState
             ([Pending, Fulfilled example_payload] @ [Rejected None, Pending]))"
proof -
  have pre: "loaded (dispatch_all initialState [Pending, Fulfilled example_payload])"
    by (simp add: loaded_fulfilled_case)
  with loaded_monotone [of initialState example_payload None
      "[Pending, Fulfilled example_payload]" "[Rejected None, Pending]"]
  show ?thesis by blast
qed

text \<open>
  Claim C3, as stated, fails: a \<^verbatim>\<open>loadConfig.fulfilled\<close> step whose payload lacks
  \<^verbatim>\<open>cronosRpc\<close>, taken in the initial state, gives a state with \<open>loaded\<close> true, no
  error and \<^verbatim>\<open>cronosRpc\<close> missing, which is outside the invariant.
\<close>

theorem invariant_broken_by_partial_payload:
  "loaded (configReducer initialState (Fulfilled payload_without_rpc)) \<and>
   error (configReducer initialState (Fulfilled payload_without_rpc)) = None \<and>
   cronosRpc (configReducer initialState (Fulfilled payload_without_rpc)) = None \<and>
   \<not> state_invariant (configReducer initialState (Fulfilled payload_without_rpc))"
  by (simp add: state_invariant_def all_present_def fulfilled_case_def initialState_def
        payload_without_rpc_def example_payload_def)

text \<open>
  Claim C3, amended. The reducer copies the nine fields of a fulfilled payload as they
  are and leaves \<open>error\<close> as it was; so the invariant holds in every state reached from
  \<open>initialState\<close> by actions whose fulfilled payloads each contain all nine fields, and
  a payload that lacks a field leaves that field missing in the state.
\<close>

theorem invariant_for_complete_payloads:
  "fields_of (configReducer state (Fulfilled payload)) = payload \<and>
   error (configReducer state (Fulfilled payload)) = error state \<and>
   (list_all complete_action as \<longrightarrow> state_invariant (dispatch_all initialState as))"
  by (simp add: fields_of_fulfilled_case error_fulfilled_case
        state_invariant_dispatch_all state_invariant_initialState)

theorem invariant_for_complete_payloads_witness:
  "list_all complete_action [Pending, Fulfilled example_payload, Rejected None] \<and>
   state_invariant
     (dispatch_all initialState [Pending, Fulfilled example_payload, Rejected None])"
proof -
  have hyp: "list_all complete_action [Pending, Fulfilled example_payload, Rejected None]"
    by (simp add: all_present_example_payload)
  with invariant_for_complete_payloads [of initialState example_payload
      "[Pending, Fulfilled example_payload, Rejected None]"]
  show ?thesis by blast
qed

text \<open>
  Claim C4, as stated, fails: after a response whose \<^verbatim>\<open>ok\<close> flag is false the
  message in the store is \<^verbatim>\<open>Failed to load /config.json\<close>, not
  \<^verbatim>\<open>Failed to load configuration\<close>.
\<close>

theorem non_ok_message_differs:
  "error (dispatch_loadConfig initialState (Response False (JsonValue example_payload)))
     = Some ''Failed to load /config.json'' \<and>
   error (dispatch_loadConfig initialState (Response False (JsonValue example_payload)))
     \<noteq> Some ''Failed to load configuration''"
  by (simp add: dispatch_loadConfig_def rejected_case_def)

text \<open>
  Claim C4, amended. When the response of the GET of \<^verbatim>\<open>/config.json\<close> has a
  non-success status, whatever its body and whatever the state, the load completes
  with \<^verbatim>\<open>loadConfig.rejected\<close>, and the store then has \<open>loaded\<close> true and the
  error message \<^verbatim>\<open>Failed to load /config.json\<close>.
\<close>

theorem non_ok_response_rejected:
  "loadConfig (Response False body) = Rejected (Some ''Failed to load /config.json'') \<and>
   loaded (dispatch_loadConfig state (Response False body)) \<and>
   error (dispatch_loadConfig state (Response False body))
     = Some ''Failed to load /config.json''"
  by (simp add: dispatch_loadConfig_def loaded_rejected_case error_rejected_case)

text \<open>
  Claim C6, as stated, fails: after a successful load of the complete example
  configuration, a \<^verbatim>\<open>loadConfig.rejected\<close> step puts the message into \<open>error\<close>, and
  the gate then shows the failure instead of its children.
\<close>

theorem rejected_after_fulfilled_sets_error:
  "loaded (configReducer initialState (Fulfilled example_payload)) \<and>
   error (configReducer initialState (Fulfilled example_payload)) = None \<and>
   all_present (configReducer initialState (Fulfilled example_payload)) \<and>
   error (configReducer (configReducer initialState (Fulfilled example_payload))
            (Rejected (Some ''network down''))) = Some ''network down'' \<and>
   ConfigGate (configReducer (configReducer initialState (Fulfilled example_payload))
                 (Rejected (Some ''network down''))) ()
     = Div ''Failed to load config: network down''"
  by (simp add: loaded_fulfilled_case error_fulfilled_case all_present_fulfilled_case
        all_present_example_payload error_rejected_case loaded_rejected_case ConfigGate_def
        initialState_def)

text \<open>
  Claim C6, amended. A \<^verbatim>\<open>loadConfig.rejected\<close> step is not guarded: in every state,
  also one that holds a successfully loaded, complete configuration, it keeps \<open>loaded\<close>
  true and the nine configuration fields as they are, and overwrites \<open>error\<close> with the
  message of the rejection (or \<^verbatim>\<open>Config load failed\<close> when that is empty or
  missing); the gate then renders the failure text.
\<close>

theorem rejected_overwrites_error:
  "loaded (configReducer state (Rejected msg)) \<and>
   fields_of (configReducer state (Rejected msg)) = fields_of state \<and>
   error (configReducer state (Rejected msg)) = Some (or_str msg ''Config load failed'') \<and>
   ConfigGate (configReducer state (Rejected msg)) children
     = Div (''Failed to load config: '' @ or_str msg ''Config load failed'')"
  by (simp add: loaded_rejected_case fields_of_rejected_case error_rejected_case
        ConfigGate_def or_str_nonempty)

section \<open>Properties of the accessors\<close>

text \<open>
  Claim C1: \<^verbatim>\<open>requireConfig\<close> tests seven of the nine fields. In the state after a
  successful load of a document without \<^verbatim>\<open>cronosPositionBrokerUrl\<close> it does not
  throw \<^verbatim>\<open>Config is incomplete\<close> but returns the state, in which that field is
  missing. A document without \<^verbatim>\<open>cronosRpc\<close>, one of the seven, is refused.
\<close>

theorem requireConfig_returns_incomplete_record:
  "loaded (configReducer initialState (Fulfilled payload_without_broker)) \<and>
   cronosPositionBrokerUrl (configReducer initialState (Fulfilled payload_without_broker))
     = None \<and>
   requireConfig (configReducer initialState (Fulfilled payload_without_broker))
     = Inr (configReducer initialState (Fulfilled payload_without_broker)) \<and>
   \<not> all_present (configReducer initialState (Fulfilled payload_without_broker)) \<and>
   requireConfig (configReducer initialState (Fulfilled payload_without_rpc))
     = Inl (Error ''Config is incomplete'')"
  by (simp add: requireConfig_def fulfilled_case_def payload_without_broker_def
        payload_without_rpc_def example_payload_def all_present_def)

theorem requireConfig_returns_incomplete_record_witness:
  "requireConfig (configReducer initialState (Fulfilled payload_without_broker))
     \<noteq> Inl (Error ''Config is incomplete'') \<and>
   getCronosPositionBrokerUrl (configReducer initialState (Fulfilled payload_without_broker))
     = None"
  using requireConfig_returns_incomplete_record
  by (simp add: getCronosPositionBrokerUrl_def)

text \<open>
  Claim C5: the missing-field error of \<^verbatim>\<open>cronosTestNetChainId()\<close> names
  \<^verbatim>\<open>cronosChainId\<close>. In the state after a successful load of a document without
  \<^verbatim>\<open>cronosTestNetChainId\<close>, where \<^verbatim>\<open>cronosChainId\<close> is 25, it throws
  \<^verbatim>\<open>cronosChainId is not configured\<close>. The sibling \<^verbatim>\<open>requireCronosRpc()\<close> names
  its own field.
\<close>

theorem cronosTestNetChainId_error_names_other_field:
  "loaded (configReducer initialState (Fulfilled payload_without_testnet)) \<and>
   cronosTestNetChainId (configReducer initialState (Fulfilled payload_without_testnet))
     = None \<and>
   cronosChainId (configReducer initialState (Fulfilled payload_without_testnet))
     = Some 25 \<and>
   cronosTestNetChainId_fn (configReducer initialState (Fulfilled payload_without_testnet))
     = Inl (Error ''cronosChainId is not configured'') \<and>
   requireCronosRpc (configReducer initialState (Fulfilled payload_without_rpc))
     = Inl (Error ''cronosRpc is not configured'')"
  by (simp add: cronosTestNetChainId_fn_def requireCronosRpc_def fulfilled_case_def
        payload_without_testnet_def payload_without_rpc_def example_payload_def)

text \<open>
  Claim C7, as stated, fails: the \<^verbatim>\<open>loadConfig.fulfilled\<close> case does not touch
  \<open>error\<close>. When an earlier load was rejected with \<^verbatim>\<open>network down\<close>, a
  fulfilled step with the complete example configuration gives a state in which
  \<^verbatim>\<open>isConfigLoaded()\<close> is true and the accessors return the payload's fields, but
  \<open>error\<close> is still \<^verbatim>\<open>network down\<close>.
\<close>

theorem fulfilled_keeps_earlier_error:
  "isConfigLoaded
     (dispatch_all initialState
        [Pending, Rejected (Some ''network down''), Pending, Fulfilled example_payload]) \<and>
   fields_of
     (dispatch_all initialState
        [Pending, Rejected (Some ''network down''), Pending, Fulfilled example_payload])
     = example_payload \<and>
   requireCronosRpc
     (dispatch_all initialState
        [Pending, Rejected (Some ''network down''), Pending, Fulfilled example_payload])
     = Inr ''https://rpc.example'' \<and>
   error
     (dispatch_all initialState
        [Pending, Rejected (Some ''network down''), Pending, Fulfilled example_payload])
     = Some ''network down'' \<and>
   error
     (dispatch_all initialState
        [Pending, Rejected (Some ''network down''), Pending, Fulfilled example_payload])
     \<noteq> None"
  by (simp add: isConfigLoaded_def loaded_fulfilled_case fields_of_fulfilled_case
        error_fulfilled_case error_rejected_case)
     (simp add: requireCronosRpc_def fulfilled_case_def example_payload_def)

text \<open>
  Claim C7, amended. Take a payload whose nine fields are all present and truthy. A
  successful response with that body completes the load with
  \<^verbatim>\<open>loadConfig.fulfilled\<close>, and after this step, taken in any state,
  \<^verbatim>\<open>isConfigLoaded()\<close> is true, each requiring accessor returns the payload's field,
  and \<^verbatim>\<open>requireConfig()\<close> returns the state, whose nine fields are the payload. The
  step leaves \<open>error\<close> as it was: it is absent after the step exactly when it was
  absent before, as it is when the step is taken in the initial state.
\<close>

theorem fulfilled_roundtrip:
  assumes "a \<noteq> []" and "f \<noteq> []" and "r \<noteq> []" and "c \<noteq> 0" and "t \<noteq> 0"
    and "m \<noteq> []" and "l \<noteq> []" and "e \<noteq> []" and "b \<noteq> []"
    and "payload =
      \<lparr> cronosApiBase = Some a, cronosFullNode = Some f, cronosRpc = Some r,
        cronosChainId = Some c, cronosTestNetChainId = Some t, mosaicApiBaseUrl = Some m,
        cronosLabsUrl = Some l, cronosExplorerUrl = Some e,
        cronosPositionBrokerUrl = Some b \<rparr>"
  shows "loadConfig (Response True (JsonValue payload)) = Fulfilled payload \<and>
    isConfigLoaded (configReducer state (Fulfilled payload)) \<and>
    error (configReducer state (Fulfilled payload)) = error state \<and>
    error (configReducer initialState (Fulfilled payload)) = None \<and>
    requireCronosApiBase (configReducer state (Fulfilled payload)) = Inr a \<and>
    requireCronosRpc (configReducer state (Fulfilled payload)) = Inr r \<and>
    requireCronosChainId (configReducer state (Fulfilled payload)) = Inr c \<and>
    cronosTestNetChainId_fn (configReducer state (Fulfilled payload)) = Inr t \<and>
    requireConfig (configReducer state (Fulfilled payload))
      = Inr (configReducer state (Fulfilled payload)) \<and>
    fields_of (configReducer state (Fulfilled payload)) = payload"
proof -
  let ?s = "fulfilled_case state payload"
  have ld: "loaded ?s" by (rule loaded_fulfilled_case)
  have fs: "fields_of ?s = payload" by (rule fields_of_fulfilled_case)
  have vals: "cronosApiBase ?s = Some a" "cronosRpc ?s = Some r" "cronosChainId ?s = Some c"
    "cronosTestNetChainId ?s = Some t" "mosaicApiBaseUrl ?s = Some m"
    "cronosLabsUrl ?s = Some l" "cronosExplorerUrl ?s = Some e"
    using assms(10) by (simp_all add: fulfilled_case_def)
  have "isConfigLoaded ?s" by (simp add: isConfigLoaded_def ld)
  moreover have "error ?s = error state" by (rule error_fulfilled_case)
  moreover have "error (fulfilled_case initialState payload) = None"
    by (simp add: error_fulfilled_case initialState_def)
  moreover have "requireCronosApiBase ?s = Inr a"
    by (simp add: requireCronosApiBase_def ld vals assms(1))
  moreover have "requireCronosRpc ?s = Inr r"
    by (simp add: requireCronosRpc_def ld vals assms(3))
  moreover have "requireCronosChainId ?s = Inr c"
    by (simp add: requireCronosChainId_def ld vals)
  moreover have "cronosTestNetChainId_fn ?s = Inr t"
    by (simp add: cronosTestNetChainId_fn_def ld vals)
  moreover have "requireConfig ?s = Inr ?s"
    by (simp add: requireConfig_def ld vals assms(1-9))
  ultimately show ?thesis using fs by simp
qed

theorem fulfilled_roundtrip_witness:
  "loadConfig (Response True (JsonValue example_payload)) = Fulfilled example_payload \<and>
   isConfigLoaded
     (configReducer (rejected_case initialState (Some ''network down''))
        (Fulfilled example_payload)) \<and>
   error
     (configReducer (rejected_case initialState (Some ''network down''))
        (Fulfilled example_payload)) = Some ''network down'' \<and>
   error (configReducer initialState (Fulfilled example_payload)) = None \<and>
   requireCronosApiBase
     (configReducer (rejected_case initialState (Some ''network down''))
        (Fulfilled example_payload)) = Inr ''https://api.example'' \<and>
   requireCronosRpc
     (configReducer (rejected_case initialState (Some ''network down''))
        (Fulfilled example_payload)) = Inr ''https://rpc.example'' \<and>
   requireCronosChainId
     (configReducer (rejected_case initialState (Some ''network down''))
        (Fulfilled example_payload)) = Inr 25 \<and>
   cronosTestNetChainId_fn
     (configReducer (rejected_case initialState (Some ''network down''))
        (Fulfilled example_payload)) = Inr 338 \<and>
   requireConfig
     (configReducer (rejected_case initialState (Some ''network down''))
        (Fulfilled example_payload))
     = Inr (configReducer (rejected_case initialState (Some ''network down''))
              (Fulfilled example_payload)) \<and>
   fields_of
     (configReducer (rejected_case initialState (Some ''network down''))
        (Fulfilled example_payload)) = example_payload"
proof -
  have before: "error (rejected_case initialState (Some ''network down''))
      = Some ''network down''"
    by (simp add: error_rejected_case)
  show ?thesis
    using before fulfilled_roundtrip [of "''https://api.example''" "''https://fullnode.example''"
        "''https://rpc.example''" 25 338 "''https://mosaic.example''"
        "''https://labs.example''" "''https://explorer.example''"
        "''https://broker.example''" example_payload
        "rejected_case initialState (Some ''network down'')"]
    by (simp add: example_payload_def)
qed

text \<open>
  Claim C8. In every state of the store with \<open>loaded\<close> false (a state reached from
  \<open>initialState\<close> by dispatched actions), each of the seven plain accessors returns
  undefined; it cannot throw, having no error result. In every state with \<open>loaded\<close>
  false, each of the five requiring accessors throws its
  \<^verbatim>\<open>Config not loaded yet\<close> error.
\<close>

theorem accessors_before_load:
  "(\<not> loaded (dispatch_all initialState as) \<longrightarrow>
      getCronosApiBase (dispatch_all initialState as) = None \<and>
      getCronosRpc (dispatch_all initialState as) = None \<and>
      getCronosChainId (dispatch_all initialState as) = None \<and>
      getMosaicApiBase (dispatch_all initialState as) = None \<and>
      getCronosLabsUrl (dispatch_all initialState as) = None \<and>
      getCronosExplorerUrl (dispatch_all initialState as) = None \<and>
      getCronosPositionBrokerUrl (dispatch_all initialState as) = None) \<and>
   (\<not> loaded config \<longrightarrow>
      requireCronosApiBase config =
        Inl (Error ''Config not loaded yet. Ensure config is loaded before calling this function.'') \<and>
      requireCronosRpc config = Inl (Error ''Config not loaded yet'') \<and>
      requireCronosChainId config = Inl (Error ''Config not loaded yet'') \<and>
      cronosTestNetChainId_fn config = Inl (Error ''Config not loaded yet'') \<and>
      requireConfig config = Inl (Error ''Config not loaded yet''))"
proof -
  have plain: "all_absent s \<Longrightarrow>
      getCronosApiBase s = None \<and> getCronosRpc s = None \<and> getCronosChainId s = None \<and>
      getMosaicApiBase s = None \<and> getCronosLabsUrl s = None \<and>
      getCronosExplorerUrl s = None \<and> getCronosPositionBrokerUrl s = None" for s
    by (simp add: all_absent_def getCronosApiBase_def getCronosRpc_def getCronosChainId_def
          getMosaicApiBase_def getCronosLabsUrl_def getCronosExplorerUrl_def
          getCronosPositionBrokerUrl_def)
  have req: "\<not> loaded config \<Longrightarrow>
      requireCronosApiBase config =
        Inl (Error ''Config not loaded yet. Ensure config is loaded before calling this function.'') \<and>
      requireCronosRpc config = Inl (Error ''Config not loaded yet'') \<and>
      requireCronosChainId config = Inl (Error ''Config not loaded yet'') \<and>
      cronosTestNetChainId_fn config = Inl (Error ''Config not loaded yet'') \<and>
      requireConfig config = Inl (Error ''Config not loaded yet'')"
    by (simp add: requireCronosApiBase_def requireCronosRpc_def requireCronosChainId_def
          cronosTestNetChainId_fn_def requireConfig_def)
  from plain unloaded_reachable_absent req show ?thesis by blast
qed

theorem accessors_before_load_witness:
  "\<not> loaded (dispatch_all initialState [Pending]) \<and>
   getCronosApiBase (dispatch_all initialState [Pending]) = None \<and>
   getCronosRpc (dispatch_all initialState [Pending]) = None \<and>
   getCronosChainId (dispatch_all initialState [Pending]) = None \<and>
   getMosaicApiBase (dispatch_all initialState [Pending]) = None \<and>
   getCronosLabsUrl (dispatch_all initialState [Pending]) = None \<and>
   getCronosExplorerUrl (dispatch_all initialState [Pending]) = None \<and>
   getCronosPositionBrokerUrl (dispatch_all initialState [Pending]) = None \<and>
   requireCronosApiBase initialState =
     Inl (Error ''Config not loaded yet. Ensure config is loaded before calling this function.'') \<and>
   requireCronosRpc initialState = Inl (Error ''Config not loaded yet'') \<and>
   requireCronosChainId initialState = Inl (Error ''Config not loaded yet'') \<and>
   cronosTestNetChainId_fn initialState = Inl (Error ''Config not loaded yet'') \<and>
   requireConfig initialState = Inl (Error ''Config not loaded yet'')"
proof -
  have h1: "\<not> loaded (dispatch_all initialState [Pending])"
    by (simp add: initialState_def)
  have h2: "\<not> loaded initialState"
    by (simp add: initialState_def)
  from h1 h2 accessors_before_load [of "[Pending]" initialState]
  show ?thesis by blast
qed

section \<open>Properties of the hook and of the component tree\<close>

lemma useCronosConfig_initialState:
  "useCronosConfig initialState =
     \<lparr> cronosApiBase_hook = [], cronosFullNode_hook = [], cronosRpc_hook = [],
       cronosChainId_hook = 25, cronosTestNetChainId_hook = 250,
       mosaicApiBaseUrl_hook = [], cronosLabsUrl_hook = [], cronosExplorerUrl_hook = [],
       cronosPositionBrokerUrl_hook = [], loaded_hook = False, error_hook = None \<rparr>"
  by (simp add: useCronosConfig_def initialState_def)

lemma renders_children_ConfigGate:
  "renders_children (ConfigGate state children) = (loaded state \<and> \<not> truthy_str (error state))"
  by (simp add: ConfigGate_def)

lemma renders_children_PrivyProviderWithConfig:
  "renders_children (PrivyProviderWithConfig state children app_id client_id key)
     = (loaded state \<and> \<not> truthy_str (error state))"
  by (simp add: PrivyProviderWithConfig_def Let_def renders_children_ConfigGate)

lemma mounts_collaborator_PrivyProviderWithConfig:
  "mounts_collaborator (PrivyProviderWithConfig state children app_id client_id key)"
  by (simp add: PrivyProviderWithConfig_def Let_def)

lemma privy_chains_ConfigGate: "privy_chains (ConfigGate state children) = []"
  by (simp add: ConfigGate_def)

lemma chain_id_PrivyProviderWithConfig:
  "map chain_id (privy_chains (PrivyProviderWithConfig state children app_id client_id key))
     = [cronosChainId_hook (useCronosConfig state)]"
  by (simp add: PrivyProviderWithConfig_def Let_def privy_chains_ConfigGate)

lemma rpc_http_PrivyProviderWithConfig:
  "map rpc_http (privy_chains (PrivyProviderWithConfig state children app_id client_id key))
     = [[cronosLabsUrl_hook (useCronosConfig state)]]"
  by (simp add: PrivyProviderWithConfig_def Let_def privy_chains_ConfigGate)

lemma useCronosConfig_unloaded:
  assumes "\<not> loaded (dispatch_all initialState as)"
  shows "useCronosConfig (dispatch_all initialState as) = useCronosConfig initialState"
proof -
  from unloaded_reachable_absent [OF assms]
  have "all_absent (dispatch_all initialState as)"
    and "error (dispatch_all initialState as) = None" by simp_all
  with assms show ?thesis
    by (simp add: useCronosConfig_def all_absent_def initialState_def)
qed

lemma ConfigGate_unloaded: "\<not> loaded state \<Longrightarrow> ConfigGate state children = Null"
  by (simp add: ConfigGate_def)

text \<open>
  Claim C10. For every state of the store, each of the nine configuration fields that
  \<^verbatim>\<open>useCronosConfig\<close> returns is a value, never undefined: where the state's field is
  absent the hook returns the empty string for the seven URL fields, 25 for
  \<^verbatim>\<open>cronosChainId\<close> and 250 for \<^verbatim>\<open>cronosTestNetChainId\<close>, and \<open>loaded\<close> is passed on
  as it is. So in the initial state the hook reports chain id 25, testnet chain id 250,
  empty URLs and \<open>loaded\<close> false.
\<close>

theorem useCronosConfig_defaults:
  "(cronosApiBase config = None \<longrightarrow> cronosApiBase_hook (useCronosConfig config) = []) \<and>
   (cronosFullNode config = None \<longrightarrow> cronosFullNode_hook (useCronosConfig config) = []) \<and>
   (cronosRpc config = None \<longrightarrow> cronosRpc_hook (useCronosConfig config) = []) \<and>
   (cronosChainId config = None \<longrightarrow> cronosChainId_hook (useCronosConfig config) = 25) \<and>
   (cronosTestNetChainId config = None \<longrightarrow>
      cronosTestNetChainId_hook (useCronosConfig config) = 250) \<and>
   (mosaicApiBaseUrl config = None \<longrightarrow> mosaicApiBaseUrl_hook (useCronosConfig config) = []) \<and>
   (cronosLabsUrl config = None \<longrightarrow> cronosLabsUrl_hook (useCronosConfig config) = []) \<and>
   (cronosExplorerUrl config = None \<longrightarrow>
      cronosExplorerUrl_hook (useCronosConfig config) = []) \<and>
   (cronosPositionBrokerUrl config = None \<longrightarrow>
      cronosPositionBrokerUrl_hook (useCronosConfig config) = []) \<and>
   loaded_hook (useCronosConfig config) = loaded config \<and>
   useCronosConfig initialState =
     \<lparr> cronosApiBase_hook = [], cronosFullNode_hook = [], cronosRpc_hook = [],
       cronosChainId_hook = 25, cronosTestNetChainId_hook = 250,
       mosaicApiBaseUrl_hook = [], cronosLabsUrl_hook = [], cronosExplorerUrl_hook = [],
       cronosPositionBrokerUrl_hook = [], loaded_hook = False, error_hook = None \<rparr>"
  by (simp add: useCronosConfig_initialState) (simp add: useCronosConfig_def)

theorem useCronosConfig_defaults_witness:
  "all_absent initialState \<and>
   cronosApiBase_hook (useCronosConfig initialState) = [] \<and>
   cronosFullNode_hook (useCronosConfig initialState) = [] \<and>
   cronosRpc_hook (useCronosConfig initialState) = [] \<and>
   cronosChainId_hook (useCronosConfig initialState) = 25 \<and>
   cronosTestNetChainId_hook (useCronosConfig initialState) = 250 \<and>
   mosaicApiBaseUrl_hook (useCronosConfig initialState) = [] \<and>
   cronosLabsUrl_hook (useCronosConfig initialState) = [] \<and>
   cronosExplorerUrl_hook (useCronosConfig initialState) = [] \<and>
   cronosPositionBrokerUrl_hook (useCronosConfig initialState) = [] \<and>
   loaded_hook (useCronosConfig initialState) = False"
proof -
  have absent: "all_absent initialState"
    by (simp add: all_absent_def initialState_def)
  have unloaded: "loaded initialState = False"
    by (simp add: initialState_def)
  from absent unloaded useCronosConfig_defaults [of initialState]
  show ?thesis unfolding all_absent_def by blast
qed

text \<open>
  Claim C2, as stated, fails: in the initial state, where \<open>loaded\<close> is false, the
  tree that \<^verbatim>\<open>Providers\<close> renders contains the authentication provider, configured
  from the store through \<^verbatim>\<open>useCronosConfig\<close> with chain id 25 and an empty RPC URL,
  and the chat runtime; only the gate inside them renders nothing.
\<close>

theorem collaborators_mounted_before_load:
  "\<not> loaded initialState \<and>
   ConfigGate initialState () = Null \<and>
   Providers example_env initialState ()
     = Inr (ReduxProvider (PrivyProviderWithConfig initialState () ''app-id'' None None)) \<and>
   mounts_collaborator (PrivyProviderWithConfig initialState () ''app-id'' None None) \<and>
   map chain_id (privy_chains (PrivyProviderWithConfig initialState () ''app-id'' None None))
     = [25] \<and>
   map rpc_http (privy_chains (PrivyProviderWithConfig initialState () ''app-id'' None None))
     = [['''']]"
  by (simp add: mounts_collaborator_PrivyProviderWithConfig chain_id_PrivyProviderWithConfig
        rpc_http_PrivyProviderWithConfig useCronosConfig_initialState Providers_def
        example_env_def)
     (simp add: initialState_def ConfigGate_def)

text \<open>
  Claim C2, amended. While \<open>loaded\<close> is false \<^verbatim>\<open>ConfigGate\<close> renders nothing. The
  children of the gate are rendered only in a state with \<open>loaded\<close> true and no error,
  and when that state is reached from \<open>initialState\<close> by dispatched actions, one of
  them is a \<^verbatim>\<open>loadConfig.fulfilled\<close> or \<^verbatim>\<open>loadConfig.rejected\<close>. The authentication
  provider and the chat runtime are not behind the gate: in every state
  \<^verbatim>\<open>PrivyProviderWithConfig\<close> renders \<^verbatim>\<open>PrivyProvider\<close> around \<^verbatim>\<open>CopilotKit\<close>
  around \<^verbatim>\<open>ConfigGate\<close>, the chain of the authentication provider having the chain
  id, the RPC URL and the explorer URL that \<^verbatim>\<open>useCronosConfig\<close> returns; in every
  state of the store with \<open>loaded\<close> false these are 25 and two empty strings, and the
  innermost element is the empty render of the gate.
\<close>

theorem gate_defers_children_only:
  "(\<not> loaded state \<longrightarrow> ConfigGate state children = Null) \<and>
   (renders_children (PrivyProviderWithConfig state children app_id client_id key) \<longrightarrow>
      loaded state \<and> \<not> truthy_str (error state)) \<and>
   (renders_children
      (PrivyProviderWithConfig (dispatch_all initialState as) children app_id client_id key)
      \<longrightarrow> list_ex completing as) \<and>
   PrivyProviderWithConfig state children app_id client_id key =
     PrivyProvider
       \<lparr> appId = app_id, clientId = client_id,
         loginMethods = [''email'', ''wallet'', ''sms''],
         theme = ''light'', accentColor = ''#9333ea'',
         logo = ''https://cronos.org/favicon.ico'',
         createOnLogin = ''users-without-wallets'',
         supportedChains =
           [\<lparr> chain_id = cronosChainId_hook (useCronosConfig state),
              chain_name = ''Cronos'', network = ''cronos'',
              currency_name = ''CRO'', currency_symbol = ''CRO'', decimals = 18,
              rpc_http = [cronosLabsUrl_hook (useCronosConfig state)],
              explorer_name = ''Cronos Explorer'',
              explorer_url = cronosExplorerUrl_hook (useCronosConfig state) \<rparr>] \<rparr>
       (CopilotKit
          \<lparr> runtimeUrl = ''/api/copilotkit'', showDevConsole = False,
            agent = ''a2a_chat'', publicApiKey = key \<rparr>
          (ConfigGate state children)) \<and>
   (\<not> loaded (dispatch_all initialState as) \<longrightarrow>
      PrivyProviderWithConfig (dispatch_all initialState as) children app_id client_id key =
        PrivyProvider
          \<lparr> appId = app_id, clientId = client_id,
            loginMethods = [''email'', ''wallet'', ''sms''],
            theme = ''light'', accentColor = ''#9333ea'',
            logo = ''https://cronos.org/favicon.ico'',
            createOnLogin = ''users-without-wallets'',
            supportedChains =
              [\<lparr> chain_id = 25,
                 chain_name = ''Cronos'', network = ''cronos'',
                 currency_name = ''CRO'', currency_symbol = ''CRO'', decimals = 18,
                 rpc_http = [[]],
                 explorer_name = ''Cronos Explorer'',
                 explorer_url = [] \<rparr>] \<rparr>
          (CopilotKit
             \<lparr> runtimeUrl = ''/api/copilotkit'', showDevConsole = False,
               agent = ''a2a_chat'', publicApiKey = key \<rparr>
             Null)) \<and>
   mounts_collaborator (PrivyProviderWithConfig state children app_id client_id key) \<and>
   map chain_id (privy_chains (PrivyProviderWithConfig state children app_id client_id key))
     = [cronosChainId_hook (useCronosConfig state)]"
proof -
  have unloaded: "\<not> loaded initialState" by (simp add: initialState_def)
  have gate: "\<not> loaded state \<longrightarrow> ConfigGate state children = Null"
    by (simp add: ConfigGate_unloaded)
  have shown: "renders_children
      (PrivyProviderWithConfig state children app_id client_id key) \<longrightarrow>
      loaded state \<and> \<not> truthy_str (error state)"
    by (simp add: renders_children_PrivyProviderWithConfig)
  have after: "renders_children
      (PrivyProviderWithConfig (dispatch_all initialState as) children app_id client_id key)
      \<longrightarrow> list_ex completing as"
    using not_loaded_dispatch_all_pending [OF unloaded, of as]
    by (auto simp add: renders_children_PrivyProviderWithConfig)
  have tree: "PrivyProviderWithConfig state children app_id client_id key =
     PrivyProvider
       \<lparr> appId = app_id, clientId = client_id,
         loginMethods = [''email'', ''wallet'', ''sms''],
         theme = ''light'', accentColor = ''#9333ea'',
         logo = ''https://cronos.org/favicon.ico'',
         createOnLogin = ''users-without-wallets'',
         supportedChains =
           [\<lparr> chain_id = cronosChainId_hook (useCronosConfig state),
              chain_name = ''Cronos'', network = ''cronos'',
              currency_name = ''CRO'', currency_symbol = ''CRO'', decimals = 18,
              rpc_http = [cronosLabsUrl_hook (useCronosConfig state)],
              explorer_name = ''Cronos Explorer'',
              explorer_url = cronosExplorerUrl_hook (useCronosConfig state) \<rparr>] \<rparr>
       (CopilotKit
          \<lparr> runtimeUrl = ''/api/copilotkit'', showDevConsole = False,
            agent = ''a2a_chat'', publicApiKey = key \<rparr>
          (ConfigGate state children))" for state
    by (simp add: PrivyProviderWithConfig_def Let_def)
  have before: "\<not> loaded (dispatch_all initialState as) \<longrightarrow>
      PrivyProviderWithConfig (dispatch_all initialState as) children app_id client_id key =
        PrivyProvider
          \<lparr> appId = app_id, clientId = client_id,
            loginMethods = [''email'', ''wallet'', ''sms''],
            theme = ''light'', accentColor = ''#9333ea'',
            logo = ''https://cronos.org/favicon.ico'',
            createOnLogin = ''users-without-wallets'',
            supportedChains =
              [\<lparr> chain_id = 25,
                 chain_name = ''Cronos'', network = ''cronos'',
                 currency_name = ''CRO'', currency_symbol = ''CRO'', decimals = 18,
                 rpc_http = [[]],
                 explorer_name = ''Cronos Explorer'',
                 explorer_url = [] \<rparr>] \<rparr>
          (CopilotKit
             \<lparr> runtimeUrl = ''/api/copilotkit'', showDevConsole = False,
               agent = ''a2a_chat'', publicApiKey = key \<rparr>
             Null)"
  proof
    assume u: "\<not> loaded (dispatch_all initialState as)"
    show "PrivyProviderWithConfig (dispatch_all initialState as) children app_id client_id key =
        PrivyProvider
          \<lparr> appId = app_id, clientId = client_id,
            loginMethods = [''email'', ''wallet'', ''sms''],
            theme = ''light'', accentColor = ''#9333ea'',
            logo = ''https://cronos.org/favicon.ico'',
            createOnLogin = ''users-without-wallets'',
            supportedChains =
              [\<lparr> chain_id = 25,
                 chain_name = ''Cronos'', network = ''cronos'',
                 currency_name = ''CRO'', currency_symbol = ''CRO'', decimals = 18,
                 rpc_http = [[]],
                 explorer_name = ''Cronos Explorer'',
                 explorer_url = [] \<rparr>] \<rparr>
          (CopilotKit
             \<lparr> runtimeUrl = ''/api/copilotkit'', showDevConsole = False,
               agent = ''a2a_chat'', publicApiKey = key \<rparr>
             Null)"
      by (simp only: tree useCronosConfig_unloaded [OF u] ConfigGate_unloaded [OF u]
            useCronosConfig_initialState) simp
  qed
  have mounted: "mounts_collaborator
      (PrivyProviderWithConfig state children app_id client_id key)"
    by (rule mounts_collaborator_PrivyProviderWithConfig)
  have chain: "map chain_id
      (privy_chains (PrivyProviderWithConfig state children app_id client_id key))
     = [cronosChainId_hook (useCronosConfig state)]"
    by (rule chain_id_PrivyProviderWithConfig)
  from gate shown after tree [of state] before mounted chain show ?thesis
    by (intro conjI)
qed

theorem gate_defers_children_only_witness:
  "\<not> loaded initialState \<and>
   ConfigGate initialState () = Null \<and>
   \<not> loaded (dispatch_all initialState [Pending]) \<and>
   PrivyProviderWithConfig (dispatch_all initialState [Pending]) () ''app-id'' None None =
     PrivyProvider
       \<lparr> appId = ''app-id'', clientId = None,
         loginMethods = [''email'', ''wallet'', ''sms''],
         theme = ''light'', accentColor = ''#9333ea'',
         logo = ''https://cronos.org/favicon.ico'',
         createOnLogin = ''users-without-wallets'',
         supportedChains =
           [\<lparr> chain_id = 25,
              chain_name = ''Cronos'', network = ''cronos'',
              currency_name = ''CRO'', currency_symbol = ''CRO'', decimals = 18,
              rpc_http = [[]],
              explorer_name = ''Cronos Explorer'',
              explorer_url = [] \<rparr>] \<rparr>
       (CopilotKit
          \<lparr> runtimeUrl = ''/api/copilotkit'', showDevConsole = False,
            agent = ''a2a_chat'', publicApiKey = None \<rparr>
          Null) \<and>
   renders_children
     (PrivyProviderWithConfig (dispatch_all initialState [Pending, Fulfilled example_payload])
        () ''app-id'' None None) \<and>
   loaded (dispatch_all initialState [Pending, Fulfilled example_payload]) \<and>
   \<not> truthy_str (error (dispatch_all initialState [Pending, Fulfilled example_payload])) \<and>
   list_ex completing [Pending, Fulfilled example_payload]"
proof -
  have unloaded: "\<not> loaded initialState" by (simp add: initialState_def)
  have pending: "\<not> loaded (dispatch_all initialState [Pending])"
    by (simp add: initialState_def)
  have shown: "renders_children
     (PrivyProviderWithConfig (dispatch_all initialState [Pending, Fulfilled example_payload])
        () ''app-id'' None None)"
    by (simp add: renders_children_PrivyProviderWithConfig loaded_fulfilled_case
          error_fulfilled_case initialState_def)
  from unloaded pending
    gate_defers_children_only [of initialState "()" "''app-id''" None None "[Pending]"]
  have first: "ConfigGate initialState () = Null \<and>
    PrivyProviderWithConfig (dispatch_all initialState [Pending]) () ''app-id'' None None =
     PrivyProvider
       \<lparr> appId = ''app-id'', clientId = None,
         loginMethods = [''email'', ''wallet'', ''sms''],
         theme = ''light'', accentColor = ''#9333ea'',
         logo = ''https://cronos.org/favicon.ico'',
         createOnLogin = ''users-without-wallets'',
         supportedChains =
           [\<lparr> chain_id = 25,
              chain_name = ''Cronos'', network = ''cronos'',
              currency_name = ''CRO'', currency_symbol = ''CRO'', decimals = 18,
              rpc_http = [[]],
              explorer_name = ''Cronos Explorer'',
              explorer_url = [] \<rparr>] \<rparr>
       (CopilotKit
          \<lparr> runtimeUrl = ''/api/copilotkit'', showDevConsole = False,
            agent = ''a2a_chat'', publicApiKey = None \<rparr>
          Null)"
    by blast
  from shown
    gate_defers_children_only [of "dispatch_all initialState [Pending, Fulfilled example_payload]"
      "()" "''app-id''" None None "[Pending, Fulfilled example_payload]"]
  have second: "loaded (dispatch_all initialState [Pending, Fulfilled example_payload]) \<and>
    \<not> truthy_str (error (dispatch_all initialState [Pending, Fulfilled example_payload])) \<and>
    list_ex completing [Pending, Fulfilled example_payload]"
    by blast
  from unloaded pending first shown second show ?thesis by blast
qed

end
